theory Spec2Isabelle
  imports Complex_Main "HOL-Library.AList"
begin

section \<open>The vault of the Bestia simulator (vault.py)\<close>

text \<open>
  The embedding follows \<^verbatim>\<open>class Vault\<close> of \<^verbatim>\<open>vault.py\<close>.

  \<^item> Python's \<^verbatim>\<open>Decimal\<close> values are modelled as exact real numbers: no rounding to the
    context precision, no NaN, no infinity. Every division of the source is guarded against a
    zero divisor before it is reached, so the value HOL gives to \<open>x / 0\<close> is never used.
  \<^item> A Python \<^verbatim>\<open>dict\<close> is an association list in insertion order; \<^verbatim>\<open>d[k] = v\<close> is
    \<^const>\<open>AList.update\<close> (an existing key keeps its place, a new key goes to the end) and a
    lookup is \<^const>\<open>map_of\<close>.
  \<^item> \<^verbatim>\<open>time.time()\<close> is the parameter \<open>now\<close> of the operations that read the clock.
  \<^item> A method that raises returns \<open>Inl\<close> of the exception together with the state as it is
    at the moment of the raise; one that returns normally returns \<open>Inr\<close> of its value and the
    final state.
  \<^item> The \<^verbatim>\<open>debug\<close> flag only guards printing and is left out, as is \<^verbatim>\<open>print_status\<close>.
\<close>

subsection \<open>Data\<close>

datatype error = ValueError string | KeyError string | TypeError string

record PriceObservation =
  timestamp :: real
  price :: real

record vault =
  vault_name :: string
  cash :: real
  optimal_cash_threshold :: real
  liquidation_trigger_threshold :: real
  token_supply :: real
  assets :: "(string \<times> real) list"
  asset_liquidity_value :: "(string \<times> real) list"
  prices :: "(string \<times> real) list"
  window :: real
  deposit_requests :: "(real \<times> real) list"
  withdrawal_requests :: "(real \<times> real) list"
  price_volatility :: "(string \<times> PriceObservation list) list"
  thresholds :: "(string \<times> real) list"

text \<open>\<^verbatim>\<open>Vault.__init__\<close>\<close>

definition init_vault :: "string \<Rightarrow> real \<Rightarrow> real \<Rightarrow> real \<Rightarrow> vault" where
  "init_vault nm oct ltt w =
     \<lparr> vault_name = nm, cash = 0, optimal_cash_threshold = oct,
       liquidation_trigger_threshold = ltt, token_supply = 0, assets = [],
       asset_liquidity_value = [], prices = [], window = w, deposit_requests = [],
       withdrawal_requests = [], price_volatility = [], thresholds = [] \<rparr>"

text \<open>\<^verbatim>\<open>d.get(k, default)\<close>\<close>

definition dict_get :: "('k \<times> 'v) list \<Rightarrow> 'k \<Rightarrow> 'v \<Rightarrow> 'v" where
  "dict_get d k dflt = (case map_of d k of None \<Rightarrow> dflt | Some v \<Rightarrow> v)"

text \<open>\<^verbatim>\<open>deque(maxlen=n).append(x)\<close>: the oldest entry leaves a full buffer.\<close>

definition deque_append :: "nat \<Rightarrow> 'a \<Rightarrow> 'a list \<Rightarrow> 'a list" where
  "deque_append maxlen x xs = (if length xs < maxlen then xs @ [x] else tl xs @ [x])"

subsection \<open>Mint and redeem\<close>

definition mint :: "real \<Rightarrow> real \<Rightarrow> vault \<Rightarrow> (error + real) \<times> vault" where
  "mint now amount s =
     (Inr amount,
      s\<lparr> cash := cash s + amount,
         token_supply := token_supply s + amount,
         deposit_requests := AList.update now amount (deposit_requests s) \<rparr>)"

definition redeem :: "real \<Rightarrow> real \<Rightarrow> vault \<Rightarrow> (error + real) \<times> vault" where
  "redeem now amount s =
     (if cash s < amount then (Inl (ValueError ''Not enough cash''), s)
      else (Inr amount,
            s\<lparr> cash := cash s - amount,
               token_supply := token_supply s - amount,
               withdrawal_requests := AList.update now amount (withdrawal_requests s) \<rparr>))"

subsection \<open>The asset registry\<close>

definition add_supported_asset ::
    "real \<Rightarrow> string \<Rightarrow> real \<Rightarrow> real \<Rightarrow> real \<Rightarrow> vault \<Rightarrow> (error + unit) \<times> vault" where
  "add_supported_asset now nm liquidity_value pr threshold s =
     (if map_of (assets s) nm \<noteq> None then (Inl (ValueError ''Name already present''), s)
      else if threshold > 100 then (Inl (ValueError ''Invalid threshold''), s)
      else (Inr (),
            s\<lparr> assets := AList.update nm 0 (assets s),
               asset_liquidity_value := AList.update nm liquidity_value (asset_liquidity_value s),
               price_volatility :=
                 AList.update nm (deque_append 1000 \<lparr>timestamp = now, price = pr\<rparr> [])
                   (price_volatility s),
               prices := AList.update nm pr (prices s),
               thresholds := AList.update nm threshold (thresholds s) \<rparr>))"


definition set_asset_price :: "real \<Rightarrow> string \<Rightarrow> real \<Rightarrow> vault \<Rightarrow> (error + unit) \<times> vault" where
  "set_asset_price now asset pr s =
     (Inr (),
      s\<lparr> price_volatility :=
           AList.update asset (deque_append 1000 \<lparr>timestamp = now, price = pr\<rparr> [])
             (price_volatility s),
         prices := AList.update asset pr (prices s) \<rparr>)"


subsection \<open>Value getters\<close>

definition get_asset_value :: "vault \<Rightarrow> string \<Rightarrow> error + real" where
  "get_asset_value s asset =
     (case map_of (assets s) asset of
        None \<Rightarrow> Inl (ValueError ''Invalid asset'')
      | Some holdings \<Rightarrow>
          (case map_of (prices s) asset of
             None \<Rightarrow> Inl (ValueError ''Invalid price'')
           | Some p \<Rightarrow> Inr (p * holdings)))"

text \<open>The loop of \<^verbatim>\<open>get_assets_value\<close> over \<^verbatim>\<open>self.assets.items()\<close>.\<close>

fun assets_value_loop :: "vault \<Rightarrow> (string \<times> real) list \<Rightarrow> real \<Rightarrow> error + real" where
  "assets_value_loop s [] tot = Inr tot"
| "assets_value_loop s ((key, v) # rest) tot =
     (case get_asset_value s key of
        Inl e \<Rightarrow> Inl e
      | Inr x \<Rightarrow> assets_value_loop s rest (tot + x))"

definition get_assets_value :: "vault \<Rightarrow> error + real" where
  "get_assets_value s = assets_value_loop s (assets s) 0"

definition get_total_value :: "vault \<Rightarrow> error + real" where
  "get_total_value s =
     (case get_assets_value s of Inl e \<Rightarrow> Inl e | Inr v \<Rightarrow> Inr (v + cash s))"

definition get_current_cash_threshold :: "vault \<Rightarrow> error + real" where
  "get_current_cash_threshold s =
     (case get_total_value s of
        Inl e \<Rightarrow> Inl e
      | Inr t \<Rightarrow>
          if t = 0 then Inr 0
          else (case get_total_value s of Inl e \<Rightarrow> Inl e | Inr t' \<Rightarrow> Inr (cash s / t')))"

definition is_liquidable :: "vault \<Rightarrow> error + bool" where
  "is_liquidable s =
     (case get_current_cash_threshold s of
        Inl e \<Rightarrow> Inl e
      | Inr r \<Rightarrow> Inr (r < liquidation_trigger_threshold s))"

subsection \<open>Flow rates and volatility\<close>




text \<open>The filtering loop of \<^verbatim>\<open>get_price_volatility\<close>.\<close>

fun relevant_loop :: "real \<Rightarrow> PriceObservation list \<Rightarrow> real list \<Rightarrow> real list" where
  "relevant_loop min_time [] relevant_prices = relevant_prices"
| "relevant_loop min_time (item # rest) relevant_prices =
     (if timestamp item \<ge> min_time
      then relevant_loop min_time rest (relevant_prices @ [price item])
      else relevant_loop min_time rest relevant_prices)"

definition get_price_volatility :: "real \<Rightarrow> string \<Rightarrow> vault \<Rightarrow> error + real" where
  "get_price_volatility now asset s =
     (let min_time = now - window s in
      case map_of (price_volatility s) asset of
        None \<Rightarrow> Inl (KeyError asset)
      | Some history \<Rightarrow>
          (let relevant_prices = relevant_loop min_time history [] in
           if length relevant_prices < 2 then Inr 0
           else
             (let mean_price = sum_list relevant_prices / real (length relevant_prices);
                  variance =
                    sum_list (map (\<lambda>p. (p - mean_price)\<^sup>2) relevant_prices)
                      / real (length relevant_prices)
              in Inr (sqrt variance))))"

subsection \<open>Rebalancing\<close>

text \<open>
  The loop of \<^verbatim>\<open>rebalance\<close> over the keys of \<^verbatim>\<open>self.assets\<close>. The holdings bought so
  far stay in the state when a later asset raises.
\<close>

fun rebalance_loop :: "real \<Rightarrow> string list \<Rightarrow> vault \<Rightarrow> (error + unit) \<times> vault" where
  "rebalance_loop excess_cash [] s = (Inr (), s)"
| "rebalance_loop excess_cash (asset # rest) s =
     (if dict_get (prices s) asset 0 = 0
      then (Inl (ValueError (''Invalid asset price for '' @ asset)), s)
      else
        (let cash_for_asset = excess_cash / real (length (assets s)) in
         case map_of (prices s) asset of
           None \<Rightarrow> (Inl (KeyError asset), s)
         | Some price_per_unit \<Rightarrow>
             (let quantity_to_buy = cash_for_asset / price_per_unit in
              case map_of (assets s) asset of
                None \<Rightarrow> (Inl (KeyError asset), s)
              | Some holdings \<Rightarrow>
                  rebalance_loop excess_cash rest
                    (s\<lparr> assets := AList.update asset (holdings + quantity_to_buy) (assets s) \<rparr>))))"

definition rebalance :: "vault \<Rightarrow> (error + unit) \<times> vault" where
  "rebalance s =
     (case get_current_cash_threshold s of
        Inl e \<Rightarrow> (Inl e, s)
      | Inr current_cash_ratio \<Rightarrow>
          if current_cash_ratio \<le> optimal_cash_threshold s then (Inr (), s)
          else
            (case get_total_value s of
               Inl e \<Rightarrow> (Inl e, s)
             | Inr total_value \<Rightarrow>
                 (let desired_cash = optimal_cash_threshold s * total_value;
                      excess_cash = cash s - desired_cash
                  in case rebalance_loop excess_cash (map fst (assets s)) s of
                       (Inl e, s') \<Rightarrow> (Inl e, s')
                     | (Inr u, s') \<Rightarrow> (Inr (), s'\<lparr> cash := cash s' - excess_cash \<rparr>))))"

subsection \<open>Liquidation\<close>

text \<open>
  \<^verbatim>\<open>liquidate_asset\<close>: after the four checks the source calls
  \<^verbatim>\<open>self.swing_pricing(asset, amount, False)\<close>, while \<^verbatim>\<open>swing_pricing(self, asset, inflow)\<close>
  takes two arguments besides \<^verbatim>\<open>self\<close>; Python raises \<^verbatim>\<open>TypeError\<close> at the call, before
  the body of \<^verbatim>\<open>swing_pricing\<close> runs. The lines after the call are never reached.
\<close>

definition liquidate_asset :: "string \<Rightarrow> real \<Rightarrow> vault \<Rightarrow> (error + real \<times> real) \<times> vault" where
  "liquidate_asset asset amount s =
     (case map_of (assets s) asset of
        None \<Rightarrow> (Inl (ValueError ''Asset not supported''), s)
      | Some holdings \<Rightarrow>
          (case map_of (prices s) asset of
             None \<Rightarrow> (Inl (ValueError ''Invalid price''), s)
           | Some p \<Rightarrow>
               if holdings < amount then (Inl (ValueError ''Not enough asset amount''), s)
               else
                 (let asset_value = amount * p in
                  if cash s \<ge> asset_value
                  then (Inl (ValueError ''No need to liquidate asset, enough cash available''), s)
                  else (Inl (TypeError
                    ''swing_pricing() takes 3 positional arguments but 4 were given''), s))))"

text \<open>
  The loop of \<^verbatim>\<open>liquidate\<close> over the sorted items of \<^verbatim>\<open>asset_liquidity_value\<close>;
  \<open>desired_cash\<close> and \<open>required_cash\<close> are fixed before the loop.
\<close>

fun liquidate_loop ::
    "real \<Rightarrow> real \<Rightarrow> (string \<times> real) list \<Rightarrow> vault \<Rightarrow> (error + unit) \<times> vault" where
  "liquidate_loop desired_cash required_cash [] s = (Inr (), s)"
| "liquidate_loop desired_cash required_cash ((asset, lv) # rest) s =
     (if cash s \<ge> required_cash then (Inr (), s)
      else
        (let current_holdings = dict_get (assets s) asset 0 in
         if current_holdings = 0 then liquidate_loop desired_cash required_cash rest s
         else
           (let asset_price = dict_get (prices s) asset 0 in
            if asset_price = 0
            then (Inl (ValueError (''Invalid asset price for '' @ asset)), s)
            else
              (let max_cash_obtainable = current_holdings * asset_price;
                   still_required_cash = desired_cash - cash s
               in if max_cash_obtainable + cash s < desired_cash
                  then liquidate_loop desired_cash required_cash rest
                         (s\<lparr> cash := cash s + max_cash_obtainable,
                            assets := AList.update asset 0 (assets s) \<rparr>)
                  else
                    (let quantity_to_sell = still_required_cash / asset_price;
                         actual_cash_raised = quantity_to_sell * asset_price
                     in liquidate_loop desired_cash required_cash rest
                          (s\<lparr> assets :=
                                AList.update asset
                                  (dict_get (assets s) asset 0 - quantity_to_sell) (assets s),
                             cash := cash s + actual_cash_raised \<rparr>))))))"

definition liquidate :: "vault \<Rightarrow> (error + unit) \<times> vault" where
  "liquidate s =
     (case is_liquidable s of
        Inl e \<Rightarrow> (Inl e, s)
      | Inr liquidable \<Rightarrow>
          if \<not> liquidable then (Inr (), s)
          else
            (case get_total_value s of
               Inl e \<Rightarrow> (Inl e, s)
             | Inr total_value \<Rightarrow>
                 (let desired_cash = optimal_cash_threshold s * total_value;
                      required_cash = desired_cash - cash s;
                      sorted_assets = sort_key snd (asset_liquidity_value s)
                  in case liquidate_loop desired_cash required_cash sorted_assets s of
                       (Inl e, s') \<Rightarrow> (Inl e, s')
                     | (Inr u, s') \<Rightarrow>
                         (case get_total_value s' of
                            Inl e \<Rightarrow> (Inl e, s')
                          | Inr total_value' \<Rightarrow> (Inr (), s')))))"

subsection \<open>The state-changing methods as one type\<close>



subsection \<open>Predicates on states\<close>

text \<open>
  The invariant of the data model: every registered asset has holdings \<open>\<ge> 0\<close>, and its
  price, once set, is \<open>> 0\<close>.
\<close>

definition asset_invariant :: "vault \<Rightarrow> bool" where
  "asset_invariant s \<longleftrightarrow>
     (\<forall>a h. map_of (assets s) a = Some h \<longrightarrow>
        0 \<le> h \<and> (\<forall>p. map_of (prices s) a = Some p \<longrightarrow> 0 < p))"




text \<open>The value of the holdings \<open>al\<close> at the prices \<open>ps\<close>.\<close>

definition holdings_value :: "(string \<times> real) list \<Rightarrow> (string \<times> real) list \<Rightarrow> real" where
  "holdings_value ps al = (\<Sum>(k, h) \<leftarrow> al. dict_get ps k 0 * h)"

text \<open>
  What the loop of \<^verbatim>\<open>rebalance\<close> does to one entry of \<^verbatim>\<open>assets\<close> once the keys \<open>ks\<close>
  have been visited, with \<open>e\<close> the excess cash and \<open>n\<close> the number of assets.
\<close>

definition bought ::
    "string list \<Rightarrow> real \<Rightarrow> real \<Rightarrow> (string \<times> real) list \<Rightarrow> string \<times> real \<Rightarrow> string \<times> real" where
  "bought ks e n ps = (\<lambda>(k, h). if k \<in> set ks then (k, h + e / n / dict_get ps k 0) else (k, h))"

subsection \<open>The population standard deviation, as the specification words it\<close>



subsection \<open>Concrete states\<close>


text \<open>
  The state reached by registering one asset \<open>X\<close> at price 1, minting 10, rebalancing
  (8 units of \<open>X\<close> are bought) and redeeming the remaining 2 of cash.
\<close>

definition x_vault :: vault where
  "x_vault =
     snd (redeem 3 2 (snd (rebalance (snd (mint 2 10
       (snd (add_supported_asset 1 ''X'' 1 1 (1/2) (init_vault ''V'' (1/5) (1/20) 100))))))))"




text \<open>A vault without assets after \<^verbatim>\<open>mint(100)\<close>.\<close>

definition cash_only_vault :: vault where
  "cash_only_vault = snd (mint 1 100 (init_vault ''V'' (1/5) (1/20) 100))"





section \<open>Properties\<close>

subsection \<open>Redeem\<close>



subsection \<open>Setting a price\<close>

text \<open>
  C10: \<^verbatim>\<open>set_asset_price(asset, price)\<close> returns normally for every name and every price,
  zero and negative ones included. Afterwards the history of that name is the single
  observation \<open>(now, price)\<close> and its price is \<open>price\<close>; holdings, liquidity values and
  thresholds are untouched, so a name that was not registered is still not registered.
\<close>

theorem set_asset_price_total:
  "\<exists>s'. set_asset_price now asset pr s = (Inr (), s') \<and>
     map_of (price_volatility s') asset = Some [\<lparr>timestamp = now, price = pr\<rparr>] \<and>
     map_of (prices s') asset = Some pr \<and>
     assets s' = assets s \<and>
     asset_liquidity_value s' = asset_liquidity_value s \<and>
     thresholds s' = thresholds s \<and>
     cash s' = cash s \<and> token_supply s' = token_supply s"
  by (simp add: set_asset_price_def deque_append_def update_conv')

subsection \<open>Liquidability\<close>




subsection \<open>User-driven liquidation\<close>

lemma x_vault_eq:
  "x_vault = \<lparr> vault_name = ''V'', cash = 0, optimal_cash_threshold = 1/5,
       liquidation_trigger_threshold = 1/20, token_supply = 8, assets = [(''X'', 8)],
       asset_liquidity_value = [(''X'', 1)], prices = [(''X'', 1)], window = 100,
       deposit_requests = [(2, 10)],
       withdrawal_requests = [(3, 2)],
       price_volatility = [(''X'', [\<lparr>timestamp = 1, price = 1\<rparr>])],
       thresholds = [(''X'', 1/2)] \<rparr>"
  by (simp add: x_vault_def redeem_def rebalance_def mint_def add_supported_asset_def
      init_vault_def get_current_cash_threshold_def get_total_value_def get_assets_value_def
      get_asset_value_def deque_append_def dict_get_def)

text \<open>
  Whatever input passes the four checks of \<^verbatim>\<open>liquidate_asset\<close>, the call of
  \<^verbatim>\<open>swing_pricing\<close> with one argument too many raises, and the state is as it was.
\<close>

lemma liquidate_asset_passes_checks:
  assumes "map_of (assets s) asset = Some holdings"
      and "map_of (prices s) asset = Some p"
      and "amount \<le> holdings"
      and "cash s < amount * p"
  shows "liquidate_asset asset amount s =
     (Inl (TypeError ''swing_pricing() takes 3 positional arguments but 4 were given''), s)"
  using assms by (simp add: liquidate_asset_def)

text \<open>
  C4 asks for the pair (user part, protocol part). In \<open>x_vault\<close> the asset \<open>X\<close> is
  registered and priced at 1, 8 units are held and there is no cash; the quote for 5 units
  ends in the \<^verbatim>\<open>TypeError\<close>.
\<close>

theorem liquidate_asset_type_error:
  "liquidate_asset ''X'' 5 x_vault =
     (Inl (TypeError ''swing_pricing() takes 3 positional arguments but 4 were given''), x_vault)"
  by (simp add: x_vault_eq liquidate_asset_def)

subsection \<open>Mint\<close>

lemma mint_returns_amount:
  "fst (mint now amount s) = Inr amount \<and>
   cash (snd (mint now amount s)) = cash s + amount \<and>
   token_supply (snd (mint now amount s)) = token_supply s + amount"
  by (simp add: mint_def)

lemma update_fresh_key:
  "k \<notin> fst ` set al \<Longrightarrow> AList.update k v al = al @ [(k, v)]"
  by (induction al) auto

lemma mint_fresh_timestamp:
  "now \<notin> fst ` set (deposit_requests s) \<Longrightarrow>
   deposit_requests (snd (mint now amount s)) = deposit_requests s @ [(now, amount)]"
  by (simp add: mint_def update_fresh_key)

text \<open>
  C6 asks that the deposit log keeps every earlier deposit. The log is a dictionary keyed by
  the clock reading: two mints at the same reading 7, of 5 and then of 7, leave the single
  entry \<open>(7, 7)\<close> in the log while the cash is 12.
\<close>

theorem mint_same_timestamp:
  "deposit_requests (snd (mint 7 5 (init_vault ''V'' (1/5) (1/20) 100))) = [(7, 5)] \<and>
   deposit_requests (snd (mint 7 7 (snd (mint 7 5 (init_vault ''V'' (1/5) (1/20) 100)))))
     = [(7, 7)] \<and>
   cash (snd (mint 7 7 (snd (mint 7 5 (init_vault ''V'' (1/5) (1/20) 100))))) = 12"
  by (simp add: mint_def init_vault_def)

subsection \<open>Flow rates\<close>





subsection \<open>Volatility\<close>







lemma get_price_volatility_unknown:
  "map_of (price_volatility s) asset = None \<Longrightarrow>
   get_price_volatility now asset s = Inl (KeyError asset)"
  by (simp add: get_price_volatility_def)

subsection \<open>Rebalancing\<close>

text \<open>
  The total value in closed form, the closed form of the buying loop, and from them the
  three parts of C2 for a vault with at least one registered asset.
\<close>

lemma get_asset_value_registered:
  "map_of (assets s) k = Some h \<Longrightarrow> map_of (prices s) k = Some p \<Longrightarrow>
   get_asset_value s k = Inr (p * h)"
  by (simp add: get_asset_value_def)

lemma assets_value_loop_sum:
  "(\<forall>(k, v) \<in> set kvs. map_of (assets s) k = Some v \<and> map_of (prices s) k \<noteq> None) \<Longrightarrow>
   assets_value_loop s kvs tot = Inr (tot + holdings_value (prices s) kvs)"
proof (induction kvs arbitrary: tot)
  case Nil
  then show ?case by (simp add: holdings_value_def)
next
  case (Cons kv kvs)
  obtain k v where kv: "kv = (k, v)" by (cases kv)
  from Cons.prems kv obtain p where p: "map_of (assets s) k = Some v" "map_of (prices s) k = Some p"
    by auto
  have rest: "\<forall>(k, v) \<in> set kvs. map_of (assets s) k = Some v \<and> map_of (prices s) k \<noteq> None"
    using Cons.prems by simp
  show ?case
    using Cons.IH [OF rest] p
    by (simp add: kv get_asset_value_registered holdings_value_def dict_get_def)
qed

lemma get_total_value_sum:
  assumes "distinct (map fst (assets s))"
      and "\<forall>k \<in> fst ` set (assets s). map_of (prices s) k \<noteq> None"
  shows "get_total_value s = Inr (holdings_value (prices s) (assets s) + cash s)"
proof -
  have "\<forall>(k, v) \<in> set (assets s). map_of (assets s) k = Some v \<and> map_of (prices s) k \<noteq> None"
    using assms by force
  then show ?thesis
    by (simp add: get_total_value_def get_assets_value_def assets_value_loop_sum)
qed

lemma update_distinct_map:
  "distinct (map fst al) \<Longrightarrow> k \<in> fst ` set al \<Longrightarrow>
   AList.update k v al = map (\<lambda>(k', h'). if k' = k then (k', v) else (k', h')) al"
proof (induction al)
  case Nil
  then show ?case by simp
next
  case (Cons a al)
  show ?case
  proof (cases "fst a = k")
    case True
    then have "k \<notin> fst ` set al" using Cons.prems(1) by auto
    then have "map (\<lambda>(k', h'). if k' = k then (k', v) else (k', h')) al = al"
      by (intro map_idI) (auto simp: case_prod_beta)
    with True show ?thesis by (cases a) simp
  next
    case False
    with Cons show ?thesis by (cases a) auto
  qed
qed

lemma rebalance_loop_closed:
  "distinct (map fst (assets s)) \<Longrightarrow> distinct ks \<Longrightarrow> set ks \<subseteq> fst ` set (assets s) \<Longrightarrow>
   (\<forall>k \<in> set ks. dict_get (prices s) k 0 \<noteq> 0) \<Longrightarrow>
   rebalance_loop e ks s =
     (Inr (), s\<lparr> assets := map (bought ks e (real (length (assets s))) (prices s)) (assets s) \<rparr>)"
proof (induction ks arbitrary: s)
  case Nil
  have "map (bought [] e (real (length (assets s))) (prices s)) (assets s) = assets s"
    by (intro map_idI) (auto simp: bought_def)
  then show ?case by simp
next
  case (Cons k ks)
  let ?n = "real (length (assets s))"
  let ?p = "dict_get (prices s) k 0"
  have p0: "?p \<noteq> 0" using Cons.prems(4) by simp
  then have p: "map_of (prices s) k = Some ?p"
    by (auto simp: dict_get_def split: option.splits)
  have kin: "k \<in> fst ` set (assets s)" using Cons.prems(3) by simp
  then obtain h where h: "map_of (assets s) k = Some h"
    by (metis domD dom_map_of_conv_image_fst)
  let ?q = "e / ?n / ?p"
  let ?s1 = "s\<lparr> assets := AList.update k (h + ?q) (assets s) \<rparr>"
  have "assets ?s1 = AList.update k (h + ?q) (assets s)"
    by simp
  also have "\<dots> = map (\<lambda>(k', h'). if k' = k then (k', h + ?q) else (k', h')) (assets s)"
    by (rule update_distinct_map [OF Cons.prems(1) kin])
  finally have upd:
    "assets ?s1 = map (\<lambda>(k', h'). if k' = k then (k', h + ?q) else (k', h')) (assets s)" .
  have len: "length (assets ?s1) = length (assets s)"
    unfolding upd by simp
  have d1: "distinct (map fst (assets ?s1))"
    using Cons.prems(1) by (simp add: distinct_update)
  have d2: "distinct ks" using Cons.prems(2) by simp
  have d3: "set ks \<subseteq> fst ` set (assets ?s1)"
    using Cons.prems(3) by (auto simp: dom_update)
  have d4: "\<forall>k \<in> set ks. dict_get (prices ?s1) k 0 \<noteq> 0"
    using Cons.prems(4) by simp
  have step: "rebalance_loop e (k # ks) s = rebalance_loop e ks ?s1"
    using p0 p h by (simp add: Let_def)
  have knot: "k \<notin> set ks" using Cons.prems(2) by simp
  have maps: "map (bought ks e ?n (prices s)) (assets ?s1) =
              map (bought (k # ks) e ?n (prices s)) (assets s)"
    unfolding upd map_map
  proof (rule map_cong [OF refl])
    fix x assume x: "x \<in> set (assets s)"
    obtain k' h' where kh: "x = (k', h')" by (cases x)
    show "(bought ks e ?n (prices s) \<circ> (\<lambda>(k', h'). if k' = k then (k', h + ?q) else (k', h'))) x
          = bought (k # ks) e ?n (prices s) x"
    proof (cases "k' = k")
      case True
      have "map_of (assets s) k' = Some h'"
        using x kh Cons.prems(1) by simp
      with True h have "h' = h" by simp
      with True knot show ?thesis by (simp add: kh bought_def)
    next
      case False
      then show ?thesis by (simp add: kh bought_def)
    qed
  qed
  show ?case
    unfolding step Cons.IH [OF d1 d2 d3 d4] len
    using maps by simp
qed

lemma holdings_value_bought:
  assumes "\<forall>k \<in> fst ` set al. dict_get ps k 0 \<noteq> 0"
  shows "holdings_value ps (map (bought (map fst al') e n ps) al) =
         holdings_value ps al + (\<Sum>(k, h) \<leftarrow> al. if k \<in> fst ` set al' then e / n else 0)"
  using assms
  by (induction al) (auto simp: holdings_value_def bought_def algebra_simps)

lemma sum_list_const_share:
  "fst ` set al \<subseteq> A \<Longrightarrow> (\<Sum>(k, h) \<leftarrow> al. if k \<in> A then c else 0) = real (length al) * c"
  for al :: "(string \<times> real) list"
  by (induction al) (auto simp: algebra_simps)

lemma bought_keys: "map fst (map (bought ks e n ps) al) = map fst al"
  by (induction al) (auto simp: bought_def)

lemma rebalance_noop:
  "get_current_cash_threshold s = Inr r \<Longrightarrow> r \<le> optimal_cash_threshold s \<Longrightarrow>
   rebalance s = (Inr (), s)"
  by (simp add: rebalance_def)

lemma rebalance_triggered:
  assumes dist: "distinct (map fst (assets s))"
      and pos: "\<forall>k \<in> fst ` set (assets s). 0 < dict_get (prices s) k 0"
      and ratio: "get_current_cash_threshold s = Inr r" "optimal_cash_threshold s < r"
      and tv: "get_total_value s = Inr t"
  shows "rebalance s =
     (Inr (),
      s\<lparr> assets :=
           map (\<lambda>(k, h). (k, h + (cash s - optimal_cash_threshold s * t)
                                  / real (length (assets s)) / dict_get (prices s) k 0))
             (assets s),
         cash := cash s - (cash s - optimal_cash_threshold s * t) \<rparr>)"
proof -
  let ?e = "cash s - optimal_cash_threshold s * t"
  let ?n = "real (length (assets s))"
  have nz: "\<forall>k \<in> set (map fst (assets s)). dict_get (prices s) k 0 \<noteq> 0"
    using pos by auto
  have loop: "rebalance_loop ?e (map fst (assets s)) s =
     (Inr (), s\<lparr> assets := map (bought (map fst (assets s)) ?e ?n (prices s)) (assets s) \<rparr>)"
    by (rule rebalance_loop_closed [OF dist _ _ nz]) (use dist in auto)
  have "map (bought (map fst (assets s)) ?e ?n (prices s)) (assets s) =
        map (\<lambda>(k, h). (k, h + ?e / ?n / dict_get (prices s) k 0)) (assets s)"
    by (rule map_cong) (force simp: bought_def)+
  with loop ratio tv show ?thesis
    by (simp add: rebalance_def Let_def)
qed

lemma rebalance_conserves_total_value:
  assumes dist: "distinct (map fst (assets s))"
      and pos: "\<forall>k \<in> fst ` set (assets s). 0 < dict_get (prices s) k 0"
      and ratio: "get_current_cash_threshold s = Inr r" "optimal_cash_threshold s < r"
      and tv: "get_total_value s = Inr t"
      and nonempty: "assets s \<noteq> []"
  shows "get_total_value (snd (rebalance s)) = Inr t"
proof -
  let ?e = "cash s - optimal_cash_threshold s * t"
  let ?n = "real (length (assets s))"
  let ?al = "map (bought (map fst (assets s)) ?e ?n (prices s)) (assets s)"
  let ?s' = "s\<lparr> assets := ?al, cash := cash s - ?e \<rparr>"
  have nz: "\<forall>k \<in> fst ` set (assets s). dict_get (prices s) k 0 \<noteq> 0"
    using pos by auto
  have nz': "\<forall>k \<in> set (map fst (assets s)). dict_get (prices s) k 0 \<noteq> 0"
    using pos by auto
  have loop: "rebalance_loop ?e (map fst (assets s)) s = (Inr (), s\<lparr> assets := ?al \<rparr>)"
    by (rule rebalance_loop_closed [OF dist _ _ nz']) (use dist in auto)
  have reb: "snd (rebalance s) = ?s'"
    using loop ratio tv by (simp add: rebalance_def Let_def)
  have keys: "map fst ?al = map fst (assets s)"
    by (rule bought_keys)
  have priced: "\<forall>k \<in> fst ` set (assets s). map_of (prices s) k \<noteq> None"
    using nz by (auto simp: dict_get_def split: option.splits)
  have t: "t = holdings_value (prices s) (assets s) + cash s"
    using get_total_value_sum [OF dist priced] tv by simp
  have as': "assets ?s' = ?al" and ps': "prices ?s' = prices s"
    by simp_all
  have d': "distinct (map fst (assets ?s'))"
    unfolding as' keys by (rule dist)
  have "fst ` set ?al = set (map fst ?al)"
    by (simp only: set_map)
  also have "\<dots> = fst ` set (assets s)"
    unfolding keys by (simp only: set_map)
  finally have p': "\<forall>k \<in> fst ` set (assets ?s'). map_of (prices ?s') k \<noteq> None"
    unfolding as' ps' using priced by simp
  have n0: "?n \<noteq> 0" using nonempty by simp
  have "holdings_value (prices s) ?al = holdings_value (prices s) (assets s) + ?n * (?e / ?n)"
    using holdings_value_bought [OF nz, of "assets s" ?e ?n] sum_list_const_share [of "assets s" "fst ` set (assets s)" "?e / ?n"]
    by simp
  also have "?n * (?e / ?n) = ?e" using n0 by simp
  finally have hv: "holdings_value (prices s) ?al = holdings_value (prices s) (assets s) + ?e" .
  have "get_total_value ?s' = Inr (holdings_value (prices ?s') (assets ?s') + cash ?s')"
    by (rule get_total_value_sum [OF d' p'])
  also have "\<dots> = Inr t"
    using hv t by simp
  finally show ?thesis by (simp add: reb)
qed

text \<open>
  C2 asks that a triggered \<^verbatim>\<open>rebalance()\<close> conserves the total value in every state whose
  registered prices are all positive. With no asset registered the loop buys nothing and the
  excess cash is still taken off: from cash 100 the call leaves cash 20, and the total value
  falls from 100 to 20.
\<close>

theorem rebalance_no_assets:
  "get_current_cash_threshold cash_only_vault = Inr 1 \<and>
   get_total_value cash_only_vault = Inr 100 \<and>
   rebalance cash_only_vault = (Inr (), cash_only_vault\<lparr> cash := 20 \<rparr>) \<and>
   get_total_value (snd (rebalance cash_only_vault)) = Inr 20"
  by (simp add: cash_only_vault_def mint_def init_vault_def rebalance_def
      get_current_cash_threshold_def get_total_value_def get_assets_value_def)


subsection \<open>Evaluating the concrete states\<close>







subsection \<open>Protocol-driven liquidation\<close>










subsection \<open>The invariant of the asset registry\<close>


lemma asset_invariant_cash [simp]: "asset_invariant (s\<lparr> cash := c \<rparr>) = asset_invariant s"
  by (simp add: asset_invariant_def)










end
